theory Spec2Isabelle
  imports Complex_Main "HOL-Library.Word"
begin

section \<open>JavaScript values\<close>

text \<open>
  A JavaScript string is the list of its UTF-16 code units, so that \<open>.length\<close> is the
  length of the list and \<open>===\<close> on strings is equality of lists. \<open>js\<close> turns a literal
  of the source into such a string.
\<close>

type_synonym jsstring = "16 word list"

definition js :: "string \<Rightarrow> jsstring" where
  "js s = map of_char s"

text \<open>
  Numbers: \<open>NaN\<close>, the two infinities and the finite values (a finite double is a
  rational; \<open>Fin 0\<close> stands for both zeros, which JavaScript treats alike wherever the
  widget looks at them).
\<close>

datatype jsnum = NaN | PosInfinity | NegInfinity | Fin rat

datatype jsval = JUndefined | JNull | JBool bool | JNum jsnum | JStr jsstring

text \<open>The truthiness test of \<open>if (v)\<close> and \<open>!v\<close>.\<close>

fun truthy :: "jsval \<Rightarrow> bool" where
  "truthy JUndefined = False"
| "truthy JNull = False"
| "truthy (JBool b) = b"
| "truthy (JNum NaN) = False"
| "truthy (JNum PosInfinity) = True"
| "truthy (JNum NegInfinity) = True"
| "truthy (JNum (Fin q)) = (q \<noteq> 0)"
| "truthy (JStr s) = (s \<noteq> [])"

fun typeof :: "jsval \<Rightarrow> string" where
  "typeof JUndefined = ''undefined''"
| "typeof JNull = ''object''"
| "typeof (JBool b) = ''boolean''"
| "typeof (JNum n) = ''number''"
| "typeof (JStr s) = ''string''"

text \<open>\<open>n >= 0\<close> as JavaScript decides it: false for \<open>NaN\<close>.\<close>

fun num_ge_zero :: "jsnum \<Rightarrow> bool" where
  "num_ge_zero NaN = False"
| "num_ge_zero PosInfinity = True"
| "num_ge_zero NegInfinity = False"
| "num_ge_zero (Fin q) = (0 \<le> q)"

text \<open>
  A reference to a DOM element: a template ref is \<open>undefined\<close> before the element is
  mounted and \<open>null\<close> after it is unmounted; \<open>document.activeElement\<close> is an element or
  \<open>null\<close>. Elements are named by numbers, and \<open>===\<close> on references is equality.
\<close>

datatype jsref = RUndefined | RNull | Elem nat

section \<open>The data of the text field\<close>

datatype error = TypeError

text \<open>
  The Model Value: the text of the control, \<open>null\<close> once cleared (\<open>model.value = null\<close>),
  or \<open>undefined\<close> when the owner gave none; \<open>update:modelValue\<close> is declared with a
  string.
\<close>

datatype model_value = MUndefined | MNull | MStr jsstring

text \<open>
  The options the modelled code reads. \<open>counter\<close> is declared
  \<open>[Boolean, Number, String]\<close>; \<open>counterValue\<close> is \<open>None\<close> when
  \<open>typeof props.counterValue\<close> is not \<open>'function'\<close>, and otherwise the owner's function,
  which returns a number or throws; \<open>modelModifiers\<close> is \<open>None\<close> when
  the object is absent; \<open>onClick_clear\<close> tells whether a listener \<open>onClick:clear\<close> is
  configured; \<open>active\<close> and \<open>variant\<close> come with the field's own options.
\<close>

record props =
  autofocus :: bool
  counter :: jsval
  counterValue :: "(model_value \<Rightarrow> error + jsnum) option"
  persistentPlaceholder :: bool
  type :: jsstring
  modelModifiers :: "(jsstring \<rightharpoonup> bool) option"
  active :: bool
  variant :: jsstring
  onClick_clear :: bool

text \<open>The ambient attributes: \<open>attrs.maxlength\<close> is \<open>undefined\<close> when the attribute is absent.\<close>

record attrs =
  maxlength :: jsval

text \<open>
  The native input element as the handlers use it: its value and its selection
  (\<open>number | null\<close>; a number on every input whose type has a selection, which are the
  five types for which \<open>onInput\<close> reads it).
\<close>

record input_el =
  el_value :: jsstring
  selectionStart :: "nat option"
  selectionEnd :: "nat option"

text \<open>
  An event as a handler receives it, with the node it was dispatched to: \<open>onInput\<close> reads
  \<open>e.target\<close> as the input element, the mouse handlers compare it with \<open>inputRef.value\<close>.
\<close>

record event =
  target :: nat

text \<open>
  An \<open>IntersectionObserverEntry\<close> and the element it observes; the target is an element
  with a \<open>focus\<close> method, so that \<open>?.focus?.()\<close> on it is the call.
\<close>

record observer_entry =
  entry_target :: nat

text \<open>
  What a handler does to the outside, in the order it does it: the notifications it
  emits, the calls on the event, the native \<open>focus()\<close> of an element and the call of the
  clear listener.
\<close>

datatype effect =
    Emit_mousedown_control event
  | Emit_click_control event
  | Emit_update_focused bool
  | Emit_update_modelValue model_value
  | StopPropagation event
  | PreventDefault event
  | NativeFocus nat
  | Call_onClick_clear event

text \<open>
  The closures handed to \<open>nextTick\<close>, with the variables they capture: the element and
  the caret position of \<open>onInput\<close>, the event of \<open>onClear\<close>.
\<close>

datatype task =
    RestoreCaret nat "nat option" "nat option"
  | ClearModel event

text \<open>
  The state the handlers read and write: the Proxied Model, the Focus Controller's flag,
  \<open>inputRef.value\<close>, \<open>document.activeElement\<close>, the elements of the document, the
  continuations waiting for the next tick, the effects so far, and the modifiers of the
  visibility subscription while there is one.
\<close>

record world =
  model :: model_value
  isFocused :: bool
  inputRef :: jsref
  activeElement :: jsref
  elements :: "nat \<Rightarrow> input_el"
  pending :: "task list"
  trace :: "effect list"
  observing :: "jsstring list option"

section \<open>The collaborators\<close>

definition perform :: "effect \<Rightarrow> world \<Rightarrow> world" where
  "perform x s = s\<lparr>trace := trace s @ [x]\<rparr>"

text \<open>
  Modelled from the spec: the Proxied Model (\<open>useProxiedModel\<close>, not among the sources).
  Writing it updates the value and notifies the owner with the new value.
\<close>

definition set_model :: "model_value \<Rightarrow> world \<Rightarrow> world" where
  "set_model v s = perform (Emit_update_modelValue v) (s\<lparr>model := v\<rparr>)"

text \<open>
  Modelled from the spec: the Focus Controller (\<open>useFocus\<close>, not among the sources), a
  boolean with the triggers \<open>focus()\<close> and \<open>blur()\<close>; a transition is notified as
  \<open>update:focused\<close>.
\<close>

definition focus :: "world \<Rightarrow> world" where
  "focus s = perform (Emit_update_focused True) (s\<lparr>isFocused := True\<rparr>)"

definition blur :: "world \<Rightarrow> world" where
  "blur s = perform (Emit_update_focused False) (s\<lparr>isFocused := False\<rparr>)"

text \<open>
  Modelled from the spec: \<open>callEvent\<close> (a utility not among the sources): the listener is
  invoked only if configured, otherwise skipped.
\<close>

definition callEvent :: "bool \<Rightarrow> effect \<Rightarrow> world \<Rightarrow> world" where
  "callEvent configured call s = (if configured then perform call s else s)"

text \<open>
  The native \<open>el.focus()\<close>: the call is recorded and the element becomes the document's
  active element. The focus event that the browser dispatches on it reaches \<open>onFocus\<close> as
  a call of its own.
\<close>

definition focus_el :: "nat \<Rightarrow> world \<Rightarrow> world" where
  "focus_el i s = perform (NativeFocus i) (s\<lparr>activeElement := Elem i\<rparr>)"

text \<open>
  The element's own setters of \<open>selectionStart\<close> and \<open>selectionEnd\<close>. Both set the
  selection range: \<open>null\<close> counts as \<open>0\<close>, an index beyond the end of the value points at
  the end of the value, and an end that is not after the start collapses the selection
  at that end. The setter of \<open>selectionStart\<close> first raises the current end to the new
  start when it lies before it.
\<close>

definition index_or_zero :: "nat option \<Rightarrow> nat" where
  "index_or_zero v = (case v of None \<Rightarrow> 0 | Some n \<Rightarrow> n)"

definition set_selection_range :: "nat option \<Rightarrow> nat option \<Rightarrow> input_el \<Rightarrow> input_el" where
  "set_selection_range from upto_v el =
     (let n = length (el_value el);
          a = min (index_or_zero from) n;
          b = min (index_or_zero upto_v) n
      in if b \<le> a then el\<lparr>selectionStart := Some b, selectionEnd := Some b\<rparr>
         else el\<lparr>selectionStart := Some a, selectionEnd := Some b\<rparr>)"

definition set_selectionStart :: "nat option \<Rightarrow> input_el \<Rightarrow> input_el" where
  "set_selectionStart v el =
     set_selection_range v
       (if index_or_zero (selectionEnd el) < index_or_zero v then v else selectionEnd el) el"

definition set_selectionEnd :: "nat option \<Rightarrow> input_el \<Rightarrow> input_el" where
  "set_selectionEnd v el = set_selection_range (selectionStart el) v el"

text \<open>\<open>nextTick(fn)\<close> queues the continuation; it runs when the pending update has flushed.\<close>

definition nextTick :: "task \<Rightarrow> world \<Rightarrow> world" where
  "nextTick t s = s\<lparr>pending := pending s @ [t]\<rparr>"

section \<open>The derived values\<close>

definition activeTypes :: "jsstring list" where
  "activeTypes =
     map js [''color'', ''file'', ''time'', ''date'', ''datetime-local'', ''week'', ''month'']"

text \<open>\<open>(v ?? '').toString()\<close> on a Model Value.\<close>

fun string_form :: "model_value \<Rightarrow> jsstring" where
  "string_form MUndefined = []"
| "string_form MNull = []"
| "string_form (MStr v) = v"

text \<open>
  The count: the custom function is called on the Model Value as it is, so the count is
  whatever that call gives, a thrown error included.
\<close>

definition counterValue :: "props \<Rightarrow> world \<Rightarrow> error + jsnum" where
  "counterValue p s =
     (case props.counterValue p of
        Some f \<Rightarrow> f (model s)
      | None \<Rightarrow> Inr (Fin (of_nat (length (string_form (model s))))))"

definition max_computed :: "props \<Rightarrow> attrs \<Rightarrow> jsval" where
  "max_computed p a =
     (if truthy (maxlength a) then maxlength a
      else if \<not> truthy (counter p) \<or>
              (typeof (counter p) \<noteq> ''number'' \<and> typeof (counter p) \<noteq> ''string'')
      then JUndefined
      else counter p)"


definition isActive :: "props \<Rightarrow> world \<Rightarrow> bool" where
  "isActive p s =
     (type p \<in> set activeTypes \<or> persistentPlaceholder p \<or> isFocused s \<or> active p)"

section \<open>The handlers\<close>

text \<open>
  \<open>entries[0].target\<close> throws a \<open>TypeError\<close> when \<open>entries\<close> is empty: \<open>entries[0]\<close> is
  then \<open>undefined\<close>, and the optional chaining only guards what follows \<open>target\<close>.
\<close>

definition onIntersect :: "props \<Rightarrow> bool \<Rightarrow> observer_entry list \<Rightarrow> world \<Rightarrow> error + world" where
  "onIntersect p isIntersecting entries s =
     (if \<not> autofocus p \<or> \<not> isIntersecting then Inr s
      else case entries of
             [] \<Rightarrow> Inl TypeError
           | e # _ \<Rightarrow> Inr (focus_el (entry_target e) s))"

definition onFocus :: "world \<Rightarrow> world" where
  "onFocus s =
     (let s1 = (if inputRef s \<noteq> activeElement s
                then (case inputRef s of Elem i \<Rightarrow> focus_el i s | _ \<Rightarrow> s)
                else s)
      in if \<not> isFocused s1 then focus s1 else s1)"

definition onControlMousedown :: "event \<Rightarrow> world \<Rightarrow> world" where
  "onControlMousedown e s =
     (let s1 = perform (Emit_mousedown_control e) s
      in if Elem (target e) = inputRef s1 then s1
         else perform (PreventDefault e) (onFocus s1))"


definition onClear :: "event \<Rightarrow> world \<Rightarrow> world" where
  "onClear e s = nextTick (ClearModel e) (onFocus (perform (StopPropagation e) s))"

text \<open>\<open>props.modelModifiers?.trim\<close>, as a condition.\<close>

definition trim_modifier :: "props \<Rightarrow> bool" where
  "trim_modifier p =
     (case modelModifiers p of None \<Rightarrow> False | Some m \<Rightarrow> m (js ''trim'') = Some True)"

definition onInput :: "props \<Rightarrow> event \<Rightarrow> world \<Rightarrow> world" where
  "onInput p e s =
     (let el = target e;
          s1 = set_model (MStr (el_value (elements s el))) s
      in if trim_modifier p \<and>
            type p \<in> set (map js [''text'', ''search'', ''password'', ''tel'', ''url''])
         then let caretPosition = (selectionStart (elements s1 el), selectionEnd (elements s1 el))
              in nextTick (RestoreCaret el (fst caretPosition) (snd caretPosition)) s1
         else s1)"

section \<open>The next tick\<close>

text \<open>The bodies of the two continuations.\<close>

fun run_task :: "props \<Rightarrow> task \<Rightarrow> world \<Rightarrow> world" where
  "run_task p (RestoreCaret el a b) s =
     (let s1 = s\<lparr>elements := (elements s)(el := set_selectionStart a (elements s el))\<rparr>
      in s1\<lparr>elements := (elements s1)(el := set_selectionEnd b (elements s1 el))\<rparr>)"
| "run_task p (ClearModel e) s =
     callEvent (onClick_clear p) (Call_onClick_clear e) (set_model MNull s)"

text \<open>The flush runs the waiting continuations in the order they were queued.\<close>

definition flush :: "props \<Rightarrow> world \<Rightarrow> world" where
  "flush p s = foldl (\<lambda>w t. run_task p t w) (s\<lparr>pending := []\<rparr>) (pending s)"

section \<open>The handlers as they are wired\<close>






text \<open>
  The effects of one call of \<open>onFocus\<close>, spelled out: a native \<open>focus()\<close> of the input
  when there is one and it is not the active element, then \<open>update:focused\<close> when the
  flag was false.
\<close>

definition focus_effects :: "world \<Rightarrow> effect list" where
  "focus_effects s =
     (case inputRef s of
        Elem i \<Rightarrow> (if inputRef s \<noteq> activeElement s then [NativeFocus i] else [])
      | _ \<Rightarrow> []) @
     (if isFocused s then [] else [Emit_update_focused True])"

text \<open>The \<open>update:focused\<close> notifications among some effects, in order.\<close>

fun focused_notifications :: "effect list \<Rightarrow> bool list" where
  "focused_notifications [] = []"
| "focused_notifications (Emit_update_focused b # xs) = b # focused_notifications xs"
| "focused_notifications (_ # xs) = focused_notifications xs"

text \<open>The native \<open>focus()\<close> calls among some effects, in order.\<close>

fun native_focuses :: "effect list \<Rightarrow> nat list" where
  "native_focuses [] = []"
| "native_focuses (NativeFocus i # xs) = i # native_focuses xs"
| "native_focuses (_ # xs) = native_focuses xs"

section \<open>The native input and its visibility subscription\<close>

text \<open>
  What the render function gives the native input, as far as the handlers are concerned:
  the directive \<open>v-intersect\<close> with the handler \<open>onIntersect\<close> and the modifiers
  \<open>['once']\<close> is bound on every render, whatever \<open>props.autofocus\<close> is.
\<close>

record input_node =
  v_intersect :: "jsstring list option"
  node_autofocus :: bool
  node_type :: jsstring
  node_value :: model_value

definition inputNode :: "props \<Rightarrow> world \<Rightarrow> input_node" where
  "inputNode p s =
     \<lparr>v_intersect = Some [js ''once''], node_autofocus = autofocus p, node_type = type p,
      node_value = model s\<rparr>"

text \<open>
  Modelled from the spec: the visibility-detection directive (\<open>directives/intersect\<close>, not
  among the sources). Mounting a node that binds it subscribes; a report reaches the
  handler, with the intersecting flag and the observed entries, only while subscribed;
  in the fire-once mode the subscription is torn down after the first intersecting
  report.
\<close>

definition intersect_mounted :: "input_node \<Rightarrow> world \<Rightarrow> world" where
  "intersect_mounted n s = s\<lparr>observing := v_intersect n\<rparr>"

definition intersect_report ::
    "props \<Rightarrow> bool \<Rightarrow> observer_entry list \<Rightarrow> world \<Rightarrow> error + world" where
  "intersect_report p isIntersecting entries s =
     (case observing s of
        None \<Rightarrow> Inr s
      | Some modifiers \<Rightarrow>
          (case onIntersect p isIntersecting entries s of
             Inl x \<Rightarrow> Inl x
           | Inr s1 \<Rightarrow>
               Inr (if isIntersecting \<and> js ''once'' \<in> set modifiers
                    then s1\<lparr>observing := None\<rparr> else s1)))"

fun intersect_reports ::
    "props \<Rightarrow> (bool \<times> observer_entry list) list \<Rightarrow> world \<Rightarrow> error + world" where
  "intersect_reports p [] s = Inr s"
| "intersect_reports p ((b, es) # rs) s =
     (case intersect_report p b es s of
        Inl x \<Rightarrow> Inl x
      | Inr s1 \<Rightarrow> intersect_reports p rs s1)"


section \<open>Examples\<close>

definition text_props :: props where
  "text_props =
     \<lparr>autofocus = False, counter = JBool False, counterValue = None,
      persistentPlaceholder = False, type = js ''text'', modelModifiers = None,
      active = False, variant = js ''filled'', onClick_clear = False\<rparr>"

definition idle :: world where
  "idle =
     \<lparr>model = MStr (js ''hello''), isFocused = False, inputRef = Elem 0,
      activeElement = RNull,
      elements = (\<lambda>_. \<lparr>el_value = js ''hello'', selectionStart = Some 5, selectionEnd = Some 5\<rparr>),
      pending = [], trace = [], observing = None\<rparr>"

text \<open>
  Typing with the \<open>trim\<close> modifier: the element holds \<open>"  hi  "\<close> with the caret at 1;
  \<open>trimmed\<close> is the state at the next tick, after the owner has trimmed the value and the
  re-render has put \<open>"hi"\<close> into the element, which moved the caret to the end.
\<close>

definition trim_props :: props where
  "trim_props = text_props\<lparr>modelModifiers := Some (Map.empty(js ''trim'' \<mapsto> True))\<rparr>"

definition typing :: world where
  "typing =
     idle\<lparr>elements :=
            (\<lambda>_. \<lparr>el_value = js ''  hi  '', selectionStart = Some 1, selectionEnd = Some 1\<rparr>)\<rparr>"

definition trimmed :: world where
  "trimmed =
     (onInput trim_props \<lparr>target = 0\<rparr> typing)\<lparr>model := MStr (js ''hi''), elements :=
        (\<lambda>_. \<lparr>el_value = js ''hi'', selectionStart = Some 2, selectionEnd = Some 2\<rparr>)\<rparr>"

text \<open>
  Typing a blank at the end: the element holds \<open>"hi "\<close> with the caret at 3, and at the
  next tick the trimmed \<open>"hi"\<close> with the caret at its end.
\<close>

definition typing_at_end :: world where
  "typing_at_end =
     idle\<lparr>elements :=
            (\<lambda>_. \<lparr>el_value = js ''hi '', selectionStart = Some 3, selectionEnd = Some 3\<rparr>)\<rparr>"

definition trimmed_at_end :: world where
  "trimmed_at_end =
     (onInput trim_props \<lparr>target = 0\<rparr> typing_at_end)\<lparr>model := MStr (js ''hi''), elements :=
        (\<lambda>_. \<lparr>el_value = js ''hi'', selectionStart = Some 2, selectionEnd = Some 2\<rparr>)\<rparr>"

text \<open>
  The counting function \<open>v => v.length * 2\<close>: reading \<open>length\<close> of \<open>null\<close> or \<open>undefined\<close>
  throws a \<open>TypeError\<close>.
\<close>

fun double_length :: "model_value \<Rightarrow> error + jsnum" where
  "double_length (MStr v) = Inr (Fin (of_nat (length v) * 2))"
| "double_length MNull = Inl TypeError"
| "double_length MUndefined = Inl TypeError"

section \<open>Facts about the handlers\<close>

lemma focus_effects_perform: "focus_effects (perform x s) = focus_effects s"
  by (cases "inputRef s") (simp_all add: focus_effects_def perform_def)

lemma trace_onFocus: "trace (onFocus s) = trace s @ focus_effects s"
  by (cases "inputRef s")
     (simp_all add: onFocus_def focus_effects_def focus_def focus_el_def perform_def Let_def)

lemma isFocused_onFocus: "isFocused (onFocus s)"
  by (cases "inputRef s")
     (simp_all add: onFocus_def focus_def focus_el_def perform_def Let_def)

lemma onFocus_frame:
  "model (onFocus s) = model s \<and> pending (onFocus s) = pending s \<and>
   elements (onFocus s) = elements s \<and> inputRef (onFocus s) = inputRef s \<and>
   observing (onFocus s) = observing s"
  by (cases "inputRef s")
     (simp_all add: onFocus_def focus_def focus_el_def perform_def Let_def)

lemma onFocus_absent:
  "inputRef s = RUndefined \<or> inputRef s = RNull \<Longrightarrow>
   onFocus s = (if isFocused s then s else focus s)"
  by (auto simp add: onFocus_def Let_def)

lemma focused_notifications_append:
  "focused_notifications (xs @ ys) = focused_notifications xs @ focused_notifications ys"
  by (induction xs rule: focused_notifications.induct) simp_all

lemma native_focuses_append:
  "native_focuses (xs @ ys) = native_focuses xs @ native_focuses ys"
  by (induction xs rule: native_focuses.induct) simp_all

text \<open>The last continuation queued is the last one the flush runs.\<close>

lemma flush_snoc:
  "pending s = ts @ [t] \<Longrightarrow> flush p s = run_task p t (flush p (s\<lparr>pending := ts\<rparr>))"
  by (simp add: flush_def)

lemma isFocused_run_task: "isFocused (run_task p t s) = isFocused s"
  by (cases t) (simp_all add: Let_def callEvent_def set_model_def perform_def)

lemma isFocused_foldl: "isFocused (foldl (\<lambda>w t. run_task p t w) s ts) = isFocused s"
  by (induction ts arbitrary: s) (simp_all add: isFocused_run_task)

lemma isFocused_flush: "isFocused (flush p s) = isFocused s"
  by (simp add: flush_def isFocused_foldl)

text \<open>No continuation changes the value of an element.\<close>

lemma el_value_set_selection_range: "el_value (set_selection_range a b el) = el_value el"
  by (simp add: set_selection_range_def Let_def)

lemma el_value_run_task: "el_value (elements (run_task p t s) i) = el_value (elements s i)"
  by (cases t)
     (simp_all add: Let_def callEvent_def set_model_def perform_def set_selectionStart_def
        set_selectionEnd_def el_value_set_selection_range)

lemma el_value_foldl:
  "el_value (elements (foldl (\<lambda>w t. run_task p t w) s ts) i) = el_value (elements s i)"
  by (induction ts arbitrary: s) (simp_all add: el_value_run_task)

lemma el_value_flush: "el_value (elements (flush p s) i) = el_value (elements s i)"
  by (simp add: flush_def el_value_foldl)

text \<open>
  Assigning a start and then an end that is not before it leaves each index at the end
  of the value when it lies beyond it, and as it is otherwise.
\<close>

lemma index_or_zero_simps: "index_or_zero None = 0" "index_or_zero (Some n) = n"
  by (simp_all add: index_or_zero_def)

lemma selectionStart_assigned:
  "selectionStart (set_selectionStart a el) =
     Some (min (index_or_zero a) (length (el_value el))) \<and>
   el_value (set_selectionStart a el) = el_value el"
  by (auto simp add: set_selectionStart_def set_selection_range_def Let_def min_def
        index_or_zero_simps)

lemma restore_clamped:
  assumes "index_or_zero a \<le> index_or_zero b"
  shows "selectionStart (set_selectionEnd b (set_selectionStart a el)) =
           Some (min (index_or_zero a) (length (el_value el))) \<and>
         selectionEnd (set_selectionEnd b (set_selectionStart a el)) =
           Some (min (index_or_zero b) (length (el_value el)))"
proof -
  let ?el1 = "set_selectionStart a el"
  let ?n = "length (el_value el)"
  have start: "selectionStart ?el1 = Some (min (index_or_zero a) ?n)"
    and val: "length (el_value ?el1) = ?n"
    by (simp_all add: selectionStart_assigned)
  from assms have "min (index_or_zero a) ?n \<le> min (index_or_zero b) ?n"
    by (simp add: min_def)
  then show ?thesis
    by (auto simp add: set_selectionEnd_def set_selection_range_def Let_def start val
          index_or_zero_simps)
qed

lemma run_task_RestoreCaret:
  "elements (run_task p (RestoreCaret el a b) s) el =
     set_selectionEnd b (set_selectionStart a (elements s el))"
  by (simp add: Let_def)

section \<open>Facts about the visibility subscription\<close>

lemma report_not_intersecting: "intersect_report p False es w = Inr w"
  by (simp add: intersect_report_def onIntersect_def split: option.splits)

lemma reports_not_intersecting:
  "\<forall>r \<in> set rs. \<not> fst r \<Longrightarrow> intersect_reports p rs w = Inr w"
  by (induction rs) (auto simp add: report_not_intersecting)

lemma reports_unsubscribed: "observing w = None \<Longrightarrow> intersect_reports p rs w = Inr w"
  by (induction rs) (auto simp add: intersect_report_def)

lemma reports_append:
  "intersect_reports p (xs @ ys) w =
     (case intersect_reports p xs w of Inl x \<Rightarrow> Inl x | Inr w1 \<Rightarrow> intersect_reports p ys w1)"
  by (induction xs arbitrary: w) (auto split: sum.splits)

lemma reports_inert:
  "\<not> autofocus p \<Longrightarrow>
   \<exists>w'. intersect_reports p rs w = Inr w' \<and> trace w' = trace w \<and>
        activeElement w' = activeElement w"
proof (induction rs arbitrary: w)
  case Nil
  then show ?case by simp
next
  case (Cons r rs)
  obtain b es where r: "r = (b, es)" by (cases r)
  from Cons.prems obtain w1 where
    w1: "intersect_report p b es w = Inr w1" "trace w1 = trace w"
      "activeElement w1 = activeElement w"
    by (cases "observing w") (auto simp add: intersect_report_def onIntersect_def)
  from Cons.IH [OF Cons.prems, of w1] w1 r show ?case by auto
qed

section \<open>The active state\<close>

text \<open>
  C1. For an Entry Type among color, file, time, date, datetime-local, week and month the
  active state is true whatever the focus, the persistent placeholder and the override
  are; for every other Entry Type it is true if and only if \<open>persistentPlaceholder\<close> is
  set, or the Focused State is true, or the \<open>active\<close> override is set.
\<close>

theorem isActive_resolution:
  "(type p \<in> {js ''color'', js ''file'', js ''time'', js ''date'', js ''datetime-local'',
               js ''week'', js ''month''} \<longrightarrow> isActive p s) \<and>
   (type p \<notin> {js ''color'', js ''file'', js ''time'', js ''date'', js ''datetime-local'',
               js ''week'', js ''month''} \<longrightarrow>
      isActive p s = (persistentPlaceholder p \<or> isFocused s \<or> active p))"
  by (simp add: isActive_def activeTypes_def)

theorem isActive_resolution_witness:
  "isActive (text_props\<lparr>type := js ''date''\<rparr>) idle \<and>
   \<not> isActive text_props idle \<and>
   isActive text_props (idle\<lparr>isFocused := True\<rparr>)"
  using isActive_resolution [of "text_props\<lparr>type := js ''date''\<rparr>" idle]
    isActive_resolution [of text_props idle]
    isActive_resolution [of text_props "idle\<lparr>isFocused := True\<rparr>"]
  by (simp add: text_props_def idle_def js_def)

section \<open>Input and the caret\<close>

text \<open>
  C2, as amended. On every input event the handler writes the element's current value to
  the Model Value, whatever the options are, and touches no selection in the same call.
  If and only if the \<open>trim\<close> modifier is enabled and the Entry Type is one of text,
  search, password, tel and url, it queues one continuation that holds the selection
  start and end the element had at the event. At the next tick the continuation assigns
  them back (\<open>w\<close> is any state with the same queue: the owner's trimming and the
  re-render lie in between). The element then holds each captured index, cut down to
  the length of the value it has by then: the captured selection is restored exactly
  when it lies within that value, and it ends at the end of the value otherwise. The
  captured start is not after the captured end, as in every selection.
\<close>

theorem onInput_contract:
  "model (onInput p e s) = MStr (el_value (elements s (target e))) \<and>
   trace (onInput p e s) =
     trace s @ [Emit_update_modelValue (MStr (el_value (elements s (target e))))] \<and>
   elements (onInput p e s) = elements s \<and>
   pending (onInput p e s) =
     (if trim_modifier p \<and>
         type p \<in> {js ''text'', js ''search'', js ''password'', js ''tel'', js ''url''}
      then pending s @
           [RestoreCaret (target e) (selectionStart (elements s (target e)))
              (selectionEnd (elements s (target e)))]
      else pending s) \<and>
   (trim_modifier p \<and>
    type p \<in> {js ''text'', js ''search'', js ''password'', js ''tel'', js ''url''} \<and>
    pending w = pending (onInput p e s) \<and>
    index_or_zero (selectionStart (elements s (target e))) \<le>
      index_or_zero (selectionEnd (elements s (target e))) \<longrightarrow>
      selectionStart (elements (flush p w) (target e)) =
        Some (min (index_or_zero (selectionStart (elements s (target e))))
                (length (el_value (elements w (target e))))) \<and>
      selectionEnd (elements (flush p w) (target e)) =
        Some (min (index_or_zero (selectionEnd (elements s (target e))))
                (length (el_value (elements w (target e)))))) \<and>
   (trim_modifier p \<and>
    type p \<in> {js ''text'', js ''search'', js ''password'', js ''tel'', js ''url''} \<and>
    pending w = pending (onInput p e s) \<and>
    selectionStart (elements s (target e)) = Some a \<and>
    selectionEnd (elements s (target e)) = Some b \<and>
    a \<le> b \<and> b \<le> length (el_value (elements w (target e))) \<longrightarrow>
      selectionStart (elements (flush p w) (target e)) = Some a \<and>
      selectionEnd (elements (flush p w) (target e)) = Some b)"
proof -
  let ?T = "{js ''text'', js ''search'', js ''password'', js ''tel'', js ''url''}"
  let ?a = "selectionStart (elements s (target e))"
  let ?b = "selectionEnd (elements s (target e))"
  let ?t = "RestoreCaret (target e) ?a ?b"
  let ?n = "length (el_value (elements w (target e)))"
  have sync: "model (onInput p e s) = MStr (el_value (elements s (target e)))"
    "trace (onInput p e s) =
       trace s @ [Emit_update_modelValue (MStr (el_value (elements s (target e))))]"
    "elements (onInput p e s) = elements s"
    by (simp_all add: onInput_def set_model_def perform_def nextTick_def Let_def)
  have queue: "pending (onInput p e s) =
      (if trim_modifier p \<and> type p \<in> ?T then pending s @ [?t] else pending s)"
    by (simp add: onInput_def set_model_def perform_def nextTick_def Let_def)
  have clamped:
    "selectionStart (elements (flush p w) (target e)) = Some (min (index_or_zero ?a) ?n) \<and>
     selectionEnd (elements (flush p w) (target e)) = Some (min (index_or_zero ?b) ?n)"
    if "trim_modifier p" "type p \<in> ?T" "pending w = pending (onInput p e s)"
      "index_or_zero ?a \<le> index_or_zero ?b"
  proof -
    let ?w0 = "flush p (w\<lparr>pending := pending s\<rparr>)"
    from that queue have "pending w = pending s @ [?t]" by simp
    then have "flush p w = run_task p ?t ?w0"
      by (rule flush_snoc)
    then have "elements (flush p w) (target e) =
        set_selectionEnd ?b (set_selectionStart ?a (elements ?w0 (target e)))"
      by (simp only: run_task_RestoreCaret)
    moreover have "length (el_value (elements ?w0 (target e))) = ?n"
      by (simp add: el_value_flush)
    ultimately show ?thesis
      using restore_clamped [OF that(4), of "elements ?w0 (target e)"] by simp
  qed
  have exact:
    "selectionStart (elements (flush p w) (target e)) = Some a \<and>
     selectionEnd (elements (flush p w) (target e)) = Some b"
    if "trim_modifier p" "type p \<in> ?T" "pending w = pending (onInput p e s)"
      "?a = Some a" "?b = Some b" "a \<le> b" "b \<le> ?n"
  proof -
    from that have "index_or_zero ?a \<le> index_or_zero ?b"
      by (simp add: index_or_zero_def)
    from clamped [OF that(1-3) this] that(4-7) show ?thesis
      by (simp add: index_or_zero_def)
  qed
  from sync queue clamped exact show ?thesis by blast
qed

theorem onInput_contract_witness:
  "model (onInput trim_props \<lparr>target = 0\<rparr> typing) = MStr (js ''  hi  '') \<and>
   pending (onInput trim_props \<lparr>target = 0\<rparr> typing) = [RestoreCaret 0 (Some 1) (Some 1)] \<and>
   pending (onInput text_props \<lparr>target = 0\<rparr> typing) = [] \<and>
   selectionStart (elements trimmed 0) = Some 2 \<and>
   selectionStart (elements (flush trim_props trimmed) 0) = Some 1 \<and>
   selectionEnd (elements (flush trim_props trimmed) 0) = Some 1"
  using onInput_contract [of trim_props "\<lparr>target = 0\<rparr>" typing trimmed 1 1]
    onInput_contract [of text_props "\<lparr>target = 0\<rparr>" typing trimmed 1 1]
  by (simp add: trim_props_def text_props_def typing_def idle_def trimmed_def trim_modifier_def
        index_or_zero_def js_def)

text \<open>
  The claim as written has the captured indices restored exactly. With \<open>"hi "\<close> and the
  caret at 3 the continuation assigns 3 to an element whose value is by then \<open>"hi"\<close>,
  and the caret is at 2.
\<close>

theorem onInput_restore_counterexample:
  "trim_modifier trim_props \<and>
   type trim_props = js ''text'' \<and>
   pending (onInput trim_props \<lparr>target = 0\<rparr> typing_at_end) =
     [RestoreCaret 0 (Some 3) (Some 3)] \<and>
   pending trimmed_at_end = pending (onInput trim_props \<lparr>target = 0\<rparr> typing_at_end) \<and>
   selectionStart (elements (flush trim_props trimmed_at_end) 0) = Some 2 \<and>
   selectionEnd (elements (flush trim_props trimmed_at_end) 0) = Some 2"
  by (simp add: trim_props_def text_props_def typing_at_end_def trimmed_at_end_def idle_def
        trim_modifier_def onInput_def set_model_def perform_def nextTick_def flush_def
        set_selectionStart_def set_selectionEnd_def set_selection_range_def index_or_zero_def
        Let_def js_def)

section \<open>Autofocus when visible\<close>

text \<open>
  C3, as amended. The native input binds the visibility directive in its fire-once mode on
  every render, whatever \<open>autofocus\<close> is, so the subscription is made also when the option
  is false. A non-intersecting report changes nothing. With \<open>autofocus\<close> set, the first
  intersecting report (given with at least one entry), after any number of
  non-intersecting ones, focuses the observed element once and ends the subscription: no
  later report, whatever it says, has an effect. With \<open>autofocus\<close> false no sequence of
  reports makes the trigger focus anything.
\<close>

theorem autofocus_one_shot:
  "observing (intersect_mounted (inputNode p s) s) = Some [js ''once''] \<and>
   intersect_report p False es w = Inr w \<and>
   (autofocus p \<and> (\<forall>r \<in> set quiet. \<not> fst r) \<longrightarrow>
      (\<exists>w'. intersect_reports p (quiet @ (True, e # es) # later)
               (intersect_mounted (inputNode p s) s) = Inr w' \<and>
            trace w' = trace s @ [NativeFocus (entry_target e)] \<and>
            activeElement w' = Elem (entry_target e) \<and>
            observing w' = None)) \<and>
   (\<not> autofocus p \<longrightarrow>
      (\<exists>w'. intersect_reports p rs (intersect_mounted (inputNode p s) s) = Inr w' \<and>
            trace w' = trace s \<and> activeElement w' = activeElement s))"
proof -
  let ?m = "intersect_mounted (inputNode p s) s"
  have sub: "observing ?m = Some [js ''once'']"
    by (simp add: intersect_mounted_def inputNode_def)
  have fires: "\<exists>w'. intersect_reports p (quiet @ (True, e # es) # later) ?m = Inr w' \<and>
      trace w' = trace s @ [NativeFocus (entry_target e)] \<and>
      activeElement w' = Elem (entry_target e) \<and> observing w' = None"
    if "autofocus p" "\<forall>r \<in> set quiet. \<not> fst r"
  proof -
    let ?w = "(focus_el (entry_target e) ?m)\<lparr>observing := None\<rparr>"
    from that(2) have "intersect_reports p quiet ?m = Inr ?m"
      by (rule reports_not_intersecting)
    moreover from that(1) sub have "intersect_report p True (e # es) ?m = Inr ?w"
      by (simp add: intersect_report_def onIntersect_def)
    moreover have "intersect_reports p later ?w = Inr ?w"
      by (rule reports_unsubscribed) simp
    ultimately have "intersect_reports p (quiet @ (True, e # es) # later) ?m = Inr ?w"
      by (simp add: reports_append)
    moreover have "trace ?w = trace s @ [NativeFocus (entry_target e)]"
      "activeElement ?w = Elem (entry_target e)" "observing ?w = None"
      by (simp_all add: focus_el_def perform_def intersect_mounted_def)
    ultimately show ?thesis by blast
  qed
  have inert: "\<exists>w'. intersect_reports p rs ?m = Inr w' \<and> trace w' = trace s \<and>
      activeElement w' = activeElement s" if "\<not> autofocus p"
    using reports_inert [OF that, of rs ?m] by (simp add: intersect_mounted_def)
  from sub report_not_intersecting fires inert show ?thesis by blast
qed

theorem autofocus_one_shot_witness:
  "\<exists>w'. intersect_reports (text_props\<lparr>autofocus := True\<rparr>)
           [(False, []), (True, [\<lparr>entry_target = 0\<rparr>]), (True, [\<lparr>entry_target = 0\<rparr>]),
            (True, [])]
           (intersect_mounted (inputNode (text_props\<lparr>autofocus := True\<rparr>) idle) idle) =
           Inr w' \<and>
        trace w' = [NativeFocus 0] \<and> observing w' = None"
proof -
  let ?p = "text_props\<lparr>autofocus := True\<rparr>"
  let ?e = "\<lparr>entry_target = 0\<rparr>"
  have pre: "autofocus ?p \<and> (\<forall>r \<in> set [(False, [])]. \<not> fst r)"
    by simp
  from autofocus_one_shot
    [of ?p idle "[]" idle "[(False, [])]" ?e "[(True, [?e]), (True, [])]" "[]"] pre
  obtain w' where
    run: "intersect_reports ?p ([(False, [])] @ (True, [?e]) # [(True, [?e]), (True, [])])
            (intersect_mounted (inputNode ?p idle) idle) = Inr w'" and
    eff: "trace w' = trace idle @ [NativeFocus (entry_target ?e)]" "observing w' = None"
    by blast
  from run have "intersect_reports ?p [(False, []), (True, [?e]), (True, [?e]), (True, [])]
      (intersect_mounted (inputNode ?p idle) idle) = Inr w'"
    by (simp only: append_Cons append_Nil)
  moreover from eff have "trace w' = [NativeFocus 0]"
    by (simp add: idle_def)
  ultimately show ?thesis
    using eff(2) by blast
qed

text \<open>
  The claim as written says that nothing subscribes when \<open>autofocus\<close> is false; the
  subscription is there.
\<close>

theorem autofocus_subscribes_counterexample:
  "\<not> autofocus text_props \<and>
   observing (intersect_mounted (inputNode text_props idle) idle) \<noteq> None"
  by (simp add: text_props_def intersect_mounted_def inputNode_def)

section \<open>The counter\<close>

text \<open>
  C4, as amended. The displayed maximum is the \<open>maxlength\<close> attribute whenever that
  attribute is truthy (present and not \<open>0\<close>, \<open>NaN\<close>, the empty string, \<open>false\<close> or
  \<open>null\<close>), and it then takes precedence over \<open>counter\<close>; otherwise, if \<open>counter\<close> is a
  truthy number or string (a number other than \<open>0\<close> and \<open>NaN\<close>, a non-empty string), the
  maximum is that value verbatim; otherwise it is \<open>undefined\<close>.
\<close>

theorem max_precedence:
  "(truthy (maxlength a) \<longrightarrow> max_computed p a = maxlength a) \<and>
   (\<not> truthy (maxlength a) \<and> truthy (counter p) \<and>
    (typeof (counter p) = ''number'' \<or> typeof (counter p) = ''string'') \<longrightarrow>
      max_computed p a = counter p) \<and>
   (\<not> truthy (maxlength a) \<and>
    \<not> (truthy (counter p) \<and>
       (typeof (counter p) = ''number'' \<or> typeof (counter p) = ''string'')) \<longrightarrow>
      max_computed p a = JUndefined)"
  by (simp add: max_computed_def)

theorem max_precedence_witness:
  "max_computed (text_props\<lparr>counter := JStr (js ''5'')\<rparr>) \<lparr>maxlength = JStr (js ''20'')\<rparr> =
     JStr (js ''20'') \<and>
   max_computed (text_props\<lparr>counter := JNum (Fin 5)\<rparr>) \<lparr>maxlength = JUndefined\<rparr> =
     JNum (Fin 5) \<and>
   max_computed (text_props\<lparr>counter := JBool True\<rparr>) \<lparr>maxlength = JUndefined\<rparr> = JUndefined"
  using
    max_precedence [of "\<lparr>maxlength = JStr (js ''20'')\<rparr>" "text_props\<lparr>counter := JStr (js ''5'')\<rparr>"]
    max_precedence [of "\<lparr>maxlength = JUndefined\<rparr>" "text_props\<lparr>counter := JNum (Fin 5)\<rparr>"]
    max_precedence [of "\<lparr>maxlength = JUndefined\<rparr>" "text_props\<lparr>counter := JBool True\<rparr>"]
  by (simp add: text_props_def js_def)

text \<open>
  The claim as written gives a present \<open>maxlength\<close> precedence; with \<open>maxlength\<close> bound to
  the number \<open>0\<close> and \<open>counter="5"\<close> the maximum is \<open>"5"\<close>.
\<close>

theorem max_precedence_counterexample:
  "maxlength \<lparr>maxlength = JNum (Fin 0)\<rparr> \<noteq> JUndefined \<and>
   max_computed (text_props\<lparr>counter := JStr (js ''5'')\<rparr>) \<lparr>maxlength = JNum (Fin 0)\<rparr> =
     JStr (js ''5'') \<and>
   max_computed (text_props\<lparr>counter := JStr (js ''5'')\<rparr>) \<lparr>maxlength = JNum (Fin 0)\<rparr> \<noteq>
     maxlength \<lparr>maxlength = JNum (Fin 0)\<rparr>"
  by (simp add: max_computed_def text_props_def js_def)

text \<open>
  C6, as amended. With a custom counting function configured the count is whatever the
  call of that function on the Model Value gives: its result, of either sign, or the
  error it throws. Without one the count is the length of the Model Value's string, \<open>0\<close>
  for \<open>null\<close> and \<open>undefined\<close>; it is then always produced and at least \<open>0\<close>.
\<close>

theorem counterValue_resolution:
  "(props.counterValue p = Some f \<longrightarrow> counterValue p s = f (model s)) \<and>
   (props.counterValue p = None \<longrightarrow>
      counterValue p s =
        Inr (case model s of MStr v \<Rightarrow> Fin (of_nat (length v)) | _ \<Rightarrow> Fin 0) \<and>
      (\<exists>n. counterValue p s = Inr n \<and> num_ge_zero n))"
  by (cases "model s") (simp_all add: counterValue_def)

theorem counterValue_resolution_witness:
  "counterValue text_props idle = Inr (Fin 5) \<and>
   counterValue (text_props\<lparr>counterValue := Some double_length\<rparr>) idle = Inr (Fin 10) \<and>
   counterValue text_props (idle\<lparr>model := MNull\<rparr>) = Inr (Fin 0)"
  using counterValue_resolution [of text_props double_length idle]
    counterValue_resolution
      [of "text_props\<lparr>counterValue := Some double_length\<rparr>" double_length idle]
    counterValue_resolution [of text_props double_length "idle\<lparr>model := MNull\<rparr>"]
  by (simp add: text_props_def idle_def js_def)

text \<open>
  The claim as written has the count always produced and at least \<open>0\<close>. The counting
  function \<open>v => v.length * 2\<close> throws on a \<open>null\<close> Model Value, so that no count is
  produced, and a counting function that returns \<open>-1\<close> gives the count \<open>-1\<close>.
\<close>

theorem counterValue_counterexample:
  "counterValue (text_props\<lparr>counterValue := Some double_length\<rparr>) (idle\<lparr>model := MNull\<rparr>) =
     Inl TypeError \<and>
   counterValue (text_props\<lparr>counterValue := Some (\<lambda>v. Inr (Fin (- 1)))\<rparr>) idle =
     Inr (Fin (- 1)) \<and>
   \<not> num_ge_zero (Fin (- 1))"
  by (simp add: counterValue_def text_props_def)

section \<open>Clearing\<close>

text \<open>
  C5. A clear interaction stops the event's propagation first and acquires focus in the
  same call; in that call the Model Value stays as it was and neither the model
  notification nor the clear listener occurs: the only effects are the stop, the native
  focus and the focus notification. One continuation is queued. At the next tick the
  Model Value is \<open>null\<close>, the owner is notified of it and then the clear listener is
  called if one is configured; the Focused State is true after the call and after the
  tick.
\<close>

theorem onClear_deferred:
  "trace (onClear e s) = trace s @ StopPropagation e # focus_effects s \<and>
   model (onClear e s) = model s \<and>
   isFocused (onClear e s) \<and>
   pending (onClear e s) = pending s @ [ClearModel e] \<and>
   model (flush p (onClear e s)) = MNull \<and>
   isFocused (flush p (onClear e s)) \<and>
   (pending s = [] \<longrightarrow>
      trace (flush p (onClear e s)) =
        trace (onClear e s) @ Emit_update_modelValue MNull #
          (if onClick_clear p then [Call_onClick_clear e] else []))"
proof -
  let ?s0 = "perform (StopPropagation e) s"
  have s0: "focus_effects ?s0 = focus_effects s" "trace ?s0 = trace s @ [StopPropagation e]"
    "model ?s0 = model s" "pending ?s0 = pending s"
    by (simp_all add: focus_effects_perform) (simp_all add: perform_def)
  have tr: "trace (onClear e s) = trace s @ StopPropagation e # focus_effects s"
    using s0 by (simp add: onClear_def nextTick_def trace_onFocus)
  have md: "model (onClear e s) = model s"
    using s0 onFocus_frame [of ?s0] by (simp add: onClear_def nextTick_def)
  have fc: "isFocused (onClear e s)"
    using isFocused_onFocus [of ?s0] by (simp add: onClear_def nextTick_def)
  have pd: "pending (onClear e s) = pending s @ [ClearModel e]"
    using s0 onFocus_frame [of ?s0] by (simp add: onClear_def nextTick_def)
  have fl: "flush p (onClear e s) =
      run_task p (ClearModel e) (flush p ((onClear e s)\<lparr>pending := pending s\<rparr>))"
    using pd by (rule flush_snoc)
  have m2: "model (flush p (onClear e s)) = MNull"
    by (simp add: fl callEvent_def set_model_def perform_def)
  have f2: "isFocused (flush p (onClear e s))"
    using fc by (simp add: isFocused_flush)
  have t2: "trace (flush p (onClear e s)) =
      trace (onClear e s) @ Emit_update_modelValue MNull #
        (if onClick_clear p then [Call_onClick_clear e] else [])" if "pending s = []"
  proof -
    from pd that have "pending (onClear e s) = [ClearModel e]"
      by simp
    then have "flush p (onClear e s) =
        run_task p (ClearModel e) ((onClear e s)\<lparr>pending := []\<rparr>)"
      by (simp add: flush_def)
    then show ?thesis
      by (simp add: callEvent_def set_model_def perform_def)
  qed
  from tr md fc pd m2 f2 t2 show ?thesis by blast
qed

theorem onClear_deferred_witness:
  "model (onClear \<lparr>target = 3\<rparr> idle) = MStr (js ''hello'') \<and>
   trace (onClear \<lparr>target = 3\<rparr> idle) =
     [StopPropagation \<lparr>target = 3\<rparr>, NativeFocus 0, Emit_update_focused True] \<and>
   model (flush (text_props\<lparr>onClick_clear := True\<rparr>) (onClear \<lparr>target = 3\<rparr> idle)) = MNull \<and>
   trace (flush (text_props\<lparr>onClick_clear := True\<rparr>) (onClear \<lparr>target = 3\<rparr> idle)) =
     [StopPropagation \<lparr>target = 3\<rparr>, NativeFocus 0, Emit_update_focused True,
      Emit_update_modelValue MNull, Call_onClick_clear \<lparr>target = 3\<rparr>]"
  using onClear_deferred [of "\<lparr>target = 3\<rparr>" idle "text_props\<lparr>onClick_clear := True\<rparr>"]
  by (simp add: idle_def text_props_def focus_effects_def)

section \<open>Focus and the mouse\<close>




text \<open>
  C8. When the native input element is absent (\<open>inputRef.value\<close> is \<open>undefined\<close> or
  \<open>null\<close>), the focus routine calls the native \<open>focus()\<close> of no element and leaves the
  document's active element as it is; it returns, and all it does is the transition of
  the Focused State when the flag was false.
\<close>

theorem onFocus_without_input:
  "inputRef s = RUndefined \<or> inputRef s = RNull \<Longrightarrow>
   native_focuses (trace (onFocus s)) = native_focuses (trace s) \<and>
   activeElement (onFocus s) = activeElement s \<and>
   onFocus s = (if isFocused s then s else focus s)"
  by (auto simp add: onFocus_absent focus_def perform_def native_focuses_append)

theorem onFocus_without_input_witness:
  "native_focuses (trace (onFocus (idle\<lparr>inputRef := RUndefined\<rparr>))) = [] \<and>
   trace (onFocus (idle\<lparr>inputRef := RUndefined\<rparr>)) = [Emit_update_focused True] \<and>
   activeElement (onFocus (idle\<lparr>inputRef := RNull\<rparr>)) = RNull"
  using onFocus_without_input [of "idle\<lparr>inputRef := RUndefined\<rparr>"]
    onFocus_without_input [of "idle\<lparr>inputRef := RNull\<rparr>"]
  by (simp add: idle_def focus_def perform_def)

text \<open>
  C9. On a mousedown on the control the notification \<open>mousedown:control\<close> comes first.
  When the event's target is the native input itself nothing else happens: no focus
  acquisition, no default-prevention. Otherwise, and only then, the handler acquires
  focus and after that prevents the event's default action.
\<close>

theorem onControlMousedown_order:
  "trace (onControlMousedown e s) =
     trace s @ Emit_mousedown_control e #
       (if inputRef s = Elem (target e) then [] else focus_effects s @ [PreventDefault e]) \<and>
   (inputRef s = Elem (target e) \<longrightarrow>
      onControlMousedown e s = perform (Emit_mousedown_control e) s) \<and>
   (inputRef s \<noteq> Elem (target e) \<longrightarrow> isFocused (onControlMousedown e s))"
proof -
  let ?s1 = "perform (Emit_mousedown_control e) s"
  have same: "inputRef ?s1 = inputRef s" "focus_effects ?s1 = focus_effects s"
    "trace ?s1 = trace s @ [Emit_mousedown_control e]"
    by (simp_all add: focus_effects_perform) (simp_all add: perform_def)
  have "trace (onControlMousedown e s) =
      trace s @ Emit_mousedown_control e #
        (if inputRef s = Elem (target e) then [] else focus_effects s @ [PreventDefault e])"
    using same by (auto simp add: onControlMousedown_def Let_def trace_onFocus perform_def)
  moreover have "onControlMousedown e s = ?s1" if "inputRef s = Elem (target e)"
    using that same by (simp add: onControlMousedown_def Let_def)
  moreover have "isFocused (onControlMousedown e s)" if "inputRef s \<noteq> Elem (target e)"
    using that same isFocused_onFocus [of ?s1]
    by (auto simp add: onControlMousedown_def Let_def perform_def)
  ultimately show ?thesis by blast
qed

theorem onControlMousedown_order_witness:
  "trace (onControlMousedown \<lparr>target = 7\<rparr> idle) =
     [Emit_mousedown_control \<lparr>target = 7\<rparr>, NativeFocus 0, Emit_update_focused True,
      PreventDefault \<lparr>target = 7\<rparr>] \<and>
   trace (onControlMousedown \<lparr>target = 0\<rparr> idle) = [Emit_mousedown_control \<lparr>target = 0\<rparr>] \<and>
   \<not> isFocused (onControlMousedown \<lparr>target = 0\<rparr> idle) \<and>
   isFocused (onControlMousedown \<lparr>target = 7\<rparr> idle)"
  using onControlMousedown_order [of "\<lparr>target = 7\<rparr>" idle]
    onControlMousedown_order [of "\<lparr>target = 0\<rparr>" idle]
  by (simp add: idle_def focus_effects_def perform_def)

text \<open>
  C10. The focus routine triggers the Focus Controller's \<open>focus()\<close> only when the flag is
  false: called while focused it leaves the flag true and adds no \<open>update:focused\<close>
  notification; called while unfocused it adds exactly one. A second call in a row
  changes neither the flag nor the notifications.
\<close>

theorem onFocus_idempotent:
  "isFocused (onFocus s) \<and>
   (isFocused s \<longrightarrow>
      focused_notifications (trace (onFocus s)) = focused_notifications (trace s)) \<and>
   (\<not> isFocused s \<longrightarrow>
      focused_notifications (trace (onFocus s)) = focused_notifications (trace s) @ [True]) \<and>
   isFocused (onFocus (onFocus s)) = isFocused (onFocus s) \<and>
   focused_notifications (trace (onFocus (onFocus s))) =
     focused_notifications (trace (onFocus s))"
proof -
  have once: "focused_notifications (trace (onFocus w)) =
      focused_notifications (trace w) @ (if isFocused w then [] else [True])" for w
    by (cases "inputRef w")
       (simp_all add: trace_onFocus focus_effects_def focused_notifications_append)
  have "focused_notifications (trace (onFocus (onFocus s))) =
      focused_notifications (trace (onFocus s))"
    using once [of "onFocus s"] by (simp add: isFocused_onFocus)
  with once [of s] show ?thesis
    by (simp add: isFocused_onFocus)
qed

theorem onFocus_idempotent_witness:
  "focused_notifications (trace (onFocus (idle\<lparr>isFocused := True\<rparr>))) = [] \<and>
   focused_notifications (trace (onFocus idle)) = [True] \<and>
   focused_notifications (trace (onFocus (onFocus idle))) = [True]"
  using onFocus_idempotent [of "idle\<lparr>isFocused := True\<rparr>"] onFocus_idempotent [of idle]
  by (simp add: idle_def)

end
